theory Spec2Isabelle
  imports Main "HOL-Library.AList"
begin

section \<open>Python values, errors and vendor calls\<close>

text \<open>
  The handlers of \<^verbatim>\<open>ignite/contrib/handlers/trains_logger.py\<close> pass Python objects
  through to the vendor SDK. A value is one of the builtin kinds the code tests for with
  \<^verbatim>\<open>isinstance\<close>, a tensor, the numpy view of a tensor, or some other object known
  by the name of its class. Floats (\<open>'f\<close>) and tensor contents (\<open>'t\<close>) stay abstract:
  the code never computes with them.
\<close>

datatype ('f, 't) pyvalue =
    PyNone
  | PyBool bool
  | PyInt int
  | PyFloat 'f
  | PyStr string
  | PyTensor 't
  | PyNdarray 't
  | PyObject string

text \<open>The task held by a logger: the bypass stub or a vendor session.\<close>

datatype task = StubTask | VendorTask

datatype error =
    RuntimeError string
  | TypeError string
  | KeyError string
  | Raised string

text \<open>
  Everything a call does to the outside world, in the order it happens: the vendor SDK
  calls with their keyword arguments, \<^verbatim>\<open>warnings.warn\<close>, the inherited
  \<^verbatim>\<open>DiskSaver\<close> calls and \<^verbatim>\<open>tempfile.mkdtemp\<close>.
\<close>

datatype ('f, 't) call =
    ReportScalar string string "('f, 't) pyvalue" "('f, 't) pyvalue"
      \<comment> \<open>title, series, iteration, value\<close>
  | AddHistogram string string "('f, 't) pyvalue" "('f, 't) pyvalue"
      \<comment> \<open>title, series, step, hist_data\<close>
  | Warn string
  | TaskInit "('f, 't) pyvalue" "('f, 't) pyvalue" "('f, 't) pyvalue" "(string \<times> ('f, 't) pyvalue) list"
      \<comment> \<open>project_name, task_name, task_type, further keyword arguments\<close>
  | GetLogger task
  | CreateHistHelper "('f, 't) pyvalue" "('f, 't) pyvalue" "('f, 't) pyvalue"
      \<comment> \<open>report_freq, histogram_update_freq_multiplier, histogram_granularity\<close>
  | Mkdtemp string
  | DiskSaverInit string
  | CurrentTask
  | SetOutputUri string
  | DiskSaverCall "(string \<times> ('f, 't) pyvalue) list" string
      \<comment> \<open>checkpoint, filename\<close>
  | CreateOutputModel "(string \<times> ('f, 't) pyvalue) list" string string
      \<comment> \<open>model, saved_path, model_name\<close>

text \<open>
  The result of invoking a handler: the handler object as the call leaves it, the calls
  made up to the point of return or raise, and the exception raised, if any.
\<close>

record ('h, 'f, 't) outcome =
  handler_after :: 'h
  calls :: "('f, 't) call list"
  raised :: "error option"

text \<open>
  The \<^verbatim>\<open>logger\<close> argument of a handler: the code only asks whether it is an instance
  of \<^verbatim>\<open>TrainsLogger\<close>.
\<close>

datatype logger = TrainsLogger task | OtherLogger string

fun is_TrainsLogger :: "logger \<Rightarrow> bool" where
  "is_TrainsLogger (TrainsLogger _) = True"
| "is_TrainsLogger (OtherLogger _) = False"

text \<open>
  The engine, as far as the handlers read it:
  \<^verbatim>\<open>engine.state.get_event_attrib_value(event_name)\<close>, which may raise.
\<close>

record ('f, 't) engine =
  get_event_attrib_value :: "string \<Rightarrow> error + ('f, 't) pyvalue"

section \<open>String helpers\<close>

text \<open>\<^verbatim>\<open>str.partition(sep)\<close> for a one-character separator.\<close>

definition partition_str :: "char \<Rightarrow> string \<Rightarrow> string \<times> string \<times> string" where
  "partition_str c s =
     (case dropWhile (\<lambda>x. x \<noteq> c) s of
        [] \<Rightarrow> (s, [], [])
      | _ # after \<Rightarrow> (takeWhile (\<lambda>x. x \<noteq> c) s, [c], after))"

text \<open>
  \<^verbatim>\<open>tag_prefix = "{}/".format(self.tag) if self.tag else ""\<close>: a tag that is
  \<^verbatim>\<open>None\<close> or the empty string is falsy.
\<close>

definition tag_prefix :: "string option \<Rightarrow> string" where
  "tag_prefix tg =
     (case tg of
        None \<Rightarrow> []
      | Some t \<Rightarrow> (if t = [] then [] else t @ ''/''))"

section \<open>Weights and gradients handlers\<close>

record 't parameter =
  data :: 't
  grad :: "'t option"

text \<open>A reduction is a callable with a \<^verbatim>\<open>__name__\<close>; applying it may raise.\<close>

record ('f, 't) reduction =
  rname :: string
  rapply :: "'t \<Rightarrow> error + ('f, 't) pyvalue"

text \<open>
  \<^verbatim>\<open>BaseWeightsScalarHandler\<close> fields (both scalar handlers) and
  \<^verbatim>\<open>BaseWeightsHistHandler\<close> fields (both histogram handlers). The model is
  given by its \<^verbatim>\<open>named_parameters()\<close>.
\<close>

record ('f, 't) scalar_handler =
  sh_model :: "(string \<times> 't parameter) list"
  sh_reduction :: "('f, 't) reduction"
  sh_tag :: "string option"

record 't hist_handler =
  hh_model :: "(string \<times> 't parameter) list"
  hh_tag :: "string option"

text \<open>
  The loop body shared by \<^verbatim>\<open>WeightsScalarHandler.__call__\<close> and
  \<^verbatim>\<open>GradsScalarHandler.__call__\<close>: they differ in the word in the title only
  (\<open>kind\<close> is \<^verbatim>\<open>weights\<close> or \<^verbatim>\<open>grads\<close>); both reduce \<^verbatim>\<open>p.data\<close>.
\<close>

fun scalar_loop ::
  "string \<Rightarrow> ('f, 't) reduction \<Rightarrow> string \<Rightarrow> ('f, 't) pyvalue \<Rightarrow>
   (string \<times> 't parameter) list \<Rightarrow> ('f, 't) call list \<times> error option" where
  "scalar_loop kind red pre gs [] = ([], None)"
| "scalar_loop kind red pre gs ((name, p) # rest) =
     (case grad p of
        None \<Rightarrow> scalar_loop kind red pre gs rest
      | Some g \<Rightarrow>
          (case partition_str CHR ''.'' name of (title_name, _, series_name) \<Rightarrow>
             (case rapply red (data p) of
                Inl e \<Rightarrow> ([], Some e)
              | Inr v \<Rightarrow>
                  (case scalar_loop kind red pre gs rest of (cs, r) \<Rightarrow>
                     (ReportScalar (pre @ kind @ ''_'' @ rname red @ ''/'' @ title_name)
                        series_name gs v # cs, r)))))"

definition WeightsScalarHandler_call ::
  "('f, 't) scalar_handler \<Rightarrow> ('f, 't) engine \<Rightarrow> logger \<Rightarrow> string \<Rightarrow>
   (('f, 't) scalar_handler, 'f, 't) outcome" where
  "WeightsScalarHandler_call self engine lg event_name =
     (if \<not> is_TrainsLogger lg then
        \<lparr>handler_after = self, calls = [],
         raised = Some (RuntimeError ''Handler WeightsScalarHandler works only with TrainsLogger'')\<rparr>
      else
        (case get_event_attrib_value engine event_name of
           Inl e \<Rightarrow> \<lparr>handler_after = self, calls = [], raised = Some e\<rparr>
         | Inr global_step \<Rightarrow>
             (case scalar_loop ''weights'' (sh_reduction self) (tag_prefix (sh_tag self))
                     global_step (sh_model self) of
                (cs, r) \<Rightarrow> \<lparr>handler_after = self, calls = cs, raised = r\<rparr>)))"

definition GradsScalarHandler_call ::
  "('f, 't) scalar_handler \<Rightarrow> ('f, 't) engine \<Rightarrow> logger \<Rightarrow> string \<Rightarrow>
   (('f, 't) scalar_handler, 'f, 't) outcome" where
  "GradsScalarHandler_call self engine lg event_name =
     (if \<not> is_TrainsLogger lg then
        \<lparr>handler_after = self, calls = [],
         raised = Some (RuntimeError ''Handler GradsScalarHandler works only with TrainsLogger'')\<rparr>
      else
        (case get_event_attrib_value engine event_name of
           Inl e \<Rightarrow> \<lparr>handler_after = self, calls = [], raised = Some e\<rparr>
         | Inr global_step \<Rightarrow>
             (case scalar_loop ''grads'' (sh_reduction self) (tag_prefix (sh_tag self))
                     global_step (sh_model self) of
                (cs, r) \<Rightarrow> \<lparr>handler_after = self, calls = cs, raised = r\<rparr>)))"

text \<open>
  The loop body shared by \<^verbatim>\<open>WeightsHistHandler.__call__\<close> and
  \<^verbatim>\<open>GradsHistHandler.__call__\<close>: again only the title word differs; both pass
  \<^verbatim>\<open>p.grad.detach().cpu().numpy()\<close> as \<^verbatim>\<open>hist_data\<close>.
\<close>

fun hist_loop ::
  "string \<Rightarrow> string \<Rightarrow> ('f, 't) pyvalue \<Rightarrow> (string \<times> 't parameter) list \<Rightarrow>
   ('f, 't) call list" where
  "hist_loop kind pre gs [] = []"
| "hist_loop kind pre gs ((name, p) # rest) =
     (case grad p of
        None \<Rightarrow> hist_loop kind pre gs rest
      | Some g \<Rightarrow>
          (case partition_str CHR ''.'' name of (title_name, _, series_name) \<Rightarrow>
             AddHistogram (pre @ kind @ ''_'' @ title_name) series_name gs (PyNdarray g)
               # hist_loop kind pre gs rest))"

definition WeightsHistHandler_call ::
  "'t hist_handler \<Rightarrow> ('f, 't) engine \<Rightarrow> logger \<Rightarrow> string \<Rightarrow>
   ('t hist_handler, 'f, 't) outcome" where
  "WeightsHistHandler_call self engine lg event_name =
     (if \<not> is_TrainsLogger lg then
        \<lparr>handler_after = self, calls = [],
         raised = Some (RuntimeError
           (''Handler '' @ [CHR 0x27] @ ''WeightsHistHandler'' @ [CHR 0x27]
              @ '' works only with TrainsLogger''))\<rparr>
      else
        (case get_event_attrib_value engine event_name of
           Inl e \<Rightarrow> \<lparr>handler_after = self, calls = [], raised = Some e\<rparr>
         | Inr global_step \<Rightarrow>
             \<lparr>handler_after = self,
              calls = hist_loop ''weights'' (tag_prefix (hh_tag self)) global_step (hh_model self),
              raised = None\<rparr>))"

definition GradsHistHandler_call ::
  "'t hist_handler \<Rightarrow> ('f, 't) engine \<Rightarrow> logger \<Rightarrow> string \<Rightarrow>
   ('t hist_handler, 'f, 't) outcome" where
  "GradsHistHandler_call self engine lg event_name =
     (if \<not> is_TrainsLogger lg then
        \<lparr>handler_after = self, calls = [],
         raised = Some (RuntimeError
           (''Handler '' @ [CHR 0x27] @ ''GradsHistHandler'' @ [CHR 0x27]
              @ '' works only with TrainsLogger''))\<rparr>
      else
        (case get_event_attrib_value engine event_name of
           Inl e \<Rightarrow> \<lparr>handler_after = self, calls = [], raised = Some e\<rparr>
         | Inr global_step \<Rightarrow>
             \<lparr>handler_after = self,
              calls = hist_loop ''grads'' (tag_prefix (hh_tag self)) global_step (hh_model self),
              raised = None\<rparr>))"

section \<open>Output handler\<close>

text \<open>\<^verbatim>\<open>type(v)\<close> as \<^verbatim>\<open>str.format\<close> prints it.\<close>

fun type_name :: "('f, 't) pyvalue \<Rightarrow> string" where
  "type_name PyNone = ''NoneType''"
| "type_name (PyBool _) = ''bool''"
| "type_name (PyInt _) = ''int''"
| "type_name (PyFloat _) = ''float''"
| "type_name (PyStr _) = ''str''"
| "type_name (PyTensor _) = ''torch.Tensor''"
| "type_name (PyNdarray _) = ''numpy.ndarray''"
| "type_name (PyObject n) = n"

definition type_repr :: "('f, 't) pyvalue \<Rightarrow> string" where
  "type_repr v = ''<class '' @ [CHR 0x27] @ type_name v @ [CHR 0x27] @ ''>''"

text \<open>
  \<^verbatim>\<open>isinstance(v, int)\<close> and \<^verbatim>\<open>isinstance(v, (float, int))\<close>: in Python
  \<^verbatim>\<open>bool\<close> is a subclass of \<^verbatim>\<open>int\<close>.
\<close>

fun isinstance_int :: "('f, 't) pyvalue \<Rightarrow> bool" where
  "isinstance_int (PyInt _) = True"
| "isinstance_int (PyBool _) = True"
| "isinstance_int _ = False"

fun isinstance_float_int :: "('f, 't) pyvalue \<Rightarrow> bool" where
  "isinstance_float_int (PyFloat _) = True"
| "isinstance_float_int v = isinstance_int v"

text \<open>\<^verbatim>\<open>BaseOutputHandler\<close> fields.\<close>

record ('f, 't) output_handler =
  oh_tag :: string
  oh_metric_names :: "string list option"
  oh_output_transform :: "(('f, 't) pyvalue \<Rightarrow> error + ('f, 't) pyvalue) option"
  oh_global_step_transform :: "('f, 't) engine \<Rightarrow> string \<Rightarrow> error + ('f, 't) pyvalue"

text \<open>The \<^verbatim>\<open>for key, value in metrics.items()\<close> loop.\<close>

fun output_loop ::
  "string \<Rightarrow> ('f, 't) pyvalue \<Rightarrow> (string \<times> ('f, 't) pyvalue) list \<Rightarrow> ('f, 't) call list" where
  "output_loop tg gs [] = []"
| "output_loop tg gs ((key, v) # rest) =
     (if isinstance_float_int v then ReportScalar tg key gs v
      else Warn (''TrainsLogger output_handler can not log metrics value type '' @ type_repr v))
     # output_loop tg gs rest"

text \<open>
  \<^verbatim>\<open>OutputHandler.__call__\<close>. The inherited \<^verbatim>\<open>_setup_output_metrics\<close> lives in
  \<^verbatim>\<open>base_logger.py\<close>; it is the parameter \<open>setup_output_metrics\<close>, which reads
  the handler and the engine and returns the metrics dictionary (its items, in order)
  or raises.
\<close>

definition OutputHandler_call ::
  "(('f, 't) output_handler \<Rightarrow> ('f, 't) engine \<Rightarrow> error + (string \<times> ('f, 't) pyvalue) list) \<Rightarrow>
   ('f, 't) output_handler \<Rightarrow> ('f, 't) engine \<Rightarrow> logger \<Rightarrow> string \<Rightarrow>
   (('f, 't) output_handler, 'f, 't) outcome" where
  "OutputHandler_call setup_output_metrics self engine lg event_name =
     (if \<not> is_TrainsLogger lg then
        \<lparr>handler_after = self, calls = [],
         raised = Some (RuntimeError ''Handler OutputHandler works only with TrainsLogger'')\<rparr>
      else
        (case setup_output_metrics self engine of
           Inl e \<Rightarrow> \<lparr>handler_after = self, calls = [], raised = Some e\<rparr>
         | Inr metrics \<Rightarrow>
             (case oh_global_step_transform self engine event_name of
                Inl e \<Rightarrow> \<lparr>handler_after = self, calls = [], raised = Some e\<rparr>
              | Inr global_step \<Rightarrow>
                  (if \<not> isinstance_int global_step then
                     \<lparr>handler_after = self, calls = [],
                      raised = Some (TypeError
                        (''global_step must be int, got '' @ type_repr global_step
                           @ ''. Please check the output of global_step_transform.''))\<rparr>
                   else
                     \<lparr>handler_after = self,
                      calls = output_loop (oh_tag self) global_step metrics,
                      raised = None\<rparr>))))"

section \<open>Optimizer parameters handler\<close>

text \<open>\<^verbatim>\<open>str(i)\<close> for the index of \<^verbatim>\<open>enumerate\<close>: decimal digits.\<close>

definition digit_char :: "nat \<Rightarrow> char" where
  "digit_char d = char_of (48 + d)"

function str_nat :: "nat \<Rightarrow> string" where
  "str_nat n = (if n < 10 then [digit_char n] else str_nat (n div 10) @ [digit_char (n mod 10)])"
  by pat_completeness auto
termination
  by (relation "measure (\<lambda>n. n)") auto

declare str_nat.simps [simp del]

text \<open>
  \<^verbatim>\<open>BaseOptimizerParamsHandler\<close> fields. The optimizer is given by its
  \<^verbatim>\<open>param_groups\<close>, each a dictionary.
\<close>

record ('f, 't) optimizer_handler =
  oph_optimizer :: "(string \<times> ('f, 't) pyvalue) list list"
  oph_param_name :: string
  oph_tag :: "string option"

text \<open>
  The dictionary comprehension
  \<^verbatim>\<open>{str(i): float(param_group[self.param_name]) for i, param_group in enumerate(...)}\<close>.
  A missing key raises \<^verbatim>\<open>KeyError\<close>; the builtin \<^verbatim>\<open>float\<close> is the parameter
  \<open>py_float\<close>, which may raise. The dictionary keeps insertion order, and assigning
  to a key that is present replaces its value in place.
\<close>

fun params_dict ::
  "(('f, 't) pyvalue \<Rightarrow> error + 'f) \<Rightarrow> string \<Rightarrow>
   (nat \<times> (string \<times> ('f, 't) pyvalue) list) list \<Rightarrow> (string \<times> 'f) list \<Rightarrow>
   error + (string \<times> 'f) list" where
  "params_dict py_float pn [] acc = Inr acc"
| "params_dict py_float pn ((i, param_group) # rest) acc =
     (case map_of param_group pn of
        None \<Rightarrow> Inl (KeyError pn)
      | Some x \<Rightarrow>
          (case py_float x of
             Inl e \<Rightarrow> Inl e
           | Inr v \<Rightarrow> params_dict py_float pn rest (AList.update (str_nat i) v acc)))"

definition OptimizerParamsHandler_call ::
  "(('f, 't) pyvalue \<Rightarrow> error + 'f) \<Rightarrow>
   ('f, 't) optimizer_handler \<Rightarrow> ('f, 't) engine \<Rightarrow> logger \<Rightarrow> string \<Rightarrow>
   (('f, 't) optimizer_handler, 'f, 't) outcome" where
  "OptimizerParamsHandler_call py_float self engine lg event_name =
     (if \<not> is_TrainsLogger lg then
        \<lparr>handler_after = self, calls = [],
         raised = Some (RuntimeError ''Handler OptimizerParamsHandler works only with TrainsLogger'')\<rparr>
      else
        (case get_event_attrib_value engine event_name of
           Inl e \<Rightarrow> \<lparr>handler_after = self, calls = [], raised = Some e\<rparr>
         | Inr global_step \<Rightarrow>
             (case params_dict py_float (oph_param_name self)
                     (enumerate 0 (oph_optimizer self)) [] of
                Inl e \<Rightarrow> \<lparr>handler_after = self, calls = [], raised = Some e\<rparr>
              | Inr params \<Rightarrow>
                  \<lparr>handler_after = self,
                   calls = map (\<lambda>(k, v).
                       ReportScalar (tag_prefix (oph_tag self) @ oph_param_name self) k
                         global_step (PyFloat v)) params,
                   raised = None\<rparr>)))"

section \<open>The handler object during a call\<close>

text \<open>
  A call hands control to code that is not the handler's own: the inherited
  \<^verbatim>\<open>_setup_output_metrics\<close>, the callable held in \<^verbatim>\<open>global_step_transform\<close>,
  the reduction, and \<^verbatim>\<open>engine.state.get_event_attrib_value\<close>. That code runs while
  the handler object is live and is able to assign to its fields. In this section each of
  them takes the handler as it is when called and returns, next to its result, the handler
  as it leaves it, and every \<^verbatim>\<open>self.field\<close> of the source reads the handler as it is
  at that statement. The vendor calls, the builtins and the tensor methods get no
  reference to the handler. The statements are those of the definitions above, in the
  same order.
\<close>

definition OutputHandler_call_live ::
  "(('f, 't) output_handler \<Rightarrow> ('f, 't) engine \<Rightarrow>
      (error + (string \<times> ('f, 't) pyvalue) list) \<times> ('f, 't) output_handler) \<Rightarrow>
   (('f, 't) output_handler \<Rightarrow> ('f, 't) engine \<Rightarrow> string \<Rightarrow>
      (error + ('f, 't) pyvalue) \<times> ('f, 't) output_handler) \<Rightarrow>
   ('f, 't) output_handler \<Rightarrow> ('f, 't) engine \<Rightarrow> logger \<Rightarrow> string \<Rightarrow>
   (('f, 't) output_handler, 'f, 't) outcome" where
  "OutputHandler_call_live setup_output_metrics global_step_transform self engine lg event_name =
     (if \<not> is_TrainsLogger lg then
        \<lparr>handler_after = self, calls = [],
         raised = Some (RuntimeError ''Handler OutputHandler works only with TrainsLogger'')\<rparr>
      else
        (case setup_output_metrics self engine of
           (Inl e, self1) \<Rightarrow> \<lparr>handler_after = self1, calls = [], raised = Some e\<rparr>
         | (Inr metrics, self1) \<Rightarrow>
             (case global_step_transform self1 engine event_name of
                (Inl e, self2) \<Rightarrow> \<lparr>handler_after = self2, calls = [], raised = Some e\<rparr>
              | (Inr global_step, self2) \<Rightarrow>
                  (if \<not> isinstance_int global_step then
                     \<lparr>handler_after = self2, calls = [],
                      raised = Some (TypeError
                        (''global_step must be int, got '' @ type_repr global_step
                           @ ''. Please check the output of global_step_transform.''))\<rparr>
                   else
                     \<lparr>handler_after = self2,
                      calls = output_loop (oh_tag self2) global_step metrics,
                      raised = None\<rparr>))))"

definition OptimizerParamsHandler_call_live ::
  "(('f, 't) optimizer_handler \<Rightarrow> ('f, 't) engine \<Rightarrow> string \<Rightarrow>
      (error + ('f, 't) pyvalue) \<times> ('f, 't) optimizer_handler) \<Rightarrow>
   (('f, 't) pyvalue \<Rightarrow> error + 'f) \<Rightarrow>
   ('f, 't) optimizer_handler \<Rightarrow> ('f, 't) engine \<Rightarrow> logger \<Rightarrow> string \<Rightarrow>
   (('f, 't) optimizer_handler, 'f, 't) outcome" where
  "OptimizerParamsHandler_call_live event_attrib py_float self engine lg event_name =
     (if \<not> is_TrainsLogger lg then
        \<lparr>handler_after = self, calls = [],
         raised = Some (RuntimeError ''Handler OptimizerParamsHandler works only with TrainsLogger'')\<rparr>
      else
        (case event_attrib self engine event_name of
           (Inl e, self1) \<Rightarrow> \<lparr>handler_after = self1, calls = [], raised = Some e\<rparr>
         | (Inr global_step, self1) \<Rightarrow>
             (case params_dict py_float (oph_param_name self1)
                     (enumerate 0 (oph_optimizer self1)) [] of
                Inl e \<Rightarrow> \<lparr>handler_after = self1, calls = [], raised = Some e\<rparr>
              | Inr params \<Rightarrow>
                  \<lparr>handler_after = self1,
                   calls = map (\<lambda>(k, v).
                       ReportScalar (tag_prefix (oph_tag self1) @ oph_param_name self1) k
                         global_step (PyFloat v)) params,
                   raised = None\<rparr>)))"

fun scalar_loop_live ::
  "(('f, 't) scalar_handler \<Rightarrow> 't \<Rightarrow> (error + ('f, 't) pyvalue) \<times> ('f, 't) scalar_handler) \<Rightarrow>
   string \<Rightarrow> string \<Rightarrow> ('f, 't) pyvalue \<Rightarrow> (string \<times> 't parameter) list \<Rightarrow>
   ('f, 't) scalar_handler \<Rightarrow>
   ('f, 't) call list \<times> error option \<times> ('f, 't) scalar_handler" where
  "scalar_loop_live reduce kind pre gs [] self = ([], None, self)"
| "scalar_loop_live reduce kind pre gs ((name, p) # rest) self =
     (case grad p of
        None \<Rightarrow> scalar_loop_live reduce kind pre gs rest self
      | Some g \<Rightarrow>
          (case partition_str CHR ''.'' name of (title_name, _, series_name) \<Rightarrow>
             (let title = pre @ kind @ ''_'' @ rname (sh_reduction self) @ ''/'' @ title_name
              in case reduce self (data p) of
                   (Inl e, self1) \<Rightarrow> ([], Some e, self1)
                 | (Inr v, self1) \<Rightarrow>
                     (case scalar_loop_live reduce kind pre gs rest self1 of (cs, r, self2) \<Rightarrow>
                        (ReportScalar title series_name gs v # cs, r, self2)))))"

definition WeightsScalarHandler_call_live ::
  "(('f, 't) scalar_handler \<Rightarrow> ('f, 't) engine \<Rightarrow> string \<Rightarrow>
      (error + ('f, 't) pyvalue) \<times> ('f, 't) scalar_handler) \<Rightarrow>
   (('f, 't) scalar_handler \<Rightarrow> 't \<Rightarrow> (error + ('f, 't) pyvalue) \<times> ('f, 't) scalar_handler) \<Rightarrow>
   ('f, 't) scalar_handler \<Rightarrow> ('f, 't) engine \<Rightarrow> logger \<Rightarrow> string \<Rightarrow>
   (('f, 't) scalar_handler, 'f, 't) outcome" where
  "WeightsScalarHandler_call_live event_attrib reduce self engine lg event_name =
     (if \<not> is_TrainsLogger lg then
        \<lparr>handler_after = self, calls = [],
         raised = Some (RuntimeError ''Handler WeightsScalarHandler works only with TrainsLogger'')\<rparr>
      else
        (case event_attrib self engine event_name of
           (Inl e, self1) \<Rightarrow> \<lparr>handler_after = self1, calls = [], raised = Some e\<rparr>
         | (Inr global_step, self1) \<Rightarrow>
             (case scalar_loop_live reduce ''weights'' (tag_prefix (sh_tag self1))
                     global_step (sh_model self1) self1 of
                (cs, r, self2) \<Rightarrow> \<lparr>handler_after = self2, calls = cs, raised = r\<rparr>)))"

definition GradsScalarHandler_call_live ::
  "(('f, 't) scalar_handler \<Rightarrow> ('f, 't) engine \<Rightarrow> string \<Rightarrow>
      (error + ('f, 't) pyvalue) \<times> ('f, 't) scalar_handler) \<Rightarrow>
   (('f, 't) scalar_handler \<Rightarrow> 't \<Rightarrow> (error + ('f, 't) pyvalue) \<times> ('f, 't) scalar_handler) \<Rightarrow>
   ('f, 't) scalar_handler \<Rightarrow> ('f, 't) engine \<Rightarrow> logger \<Rightarrow> string \<Rightarrow>
   (('f, 't) scalar_handler, 'f, 't) outcome" where
  "GradsScalarHandler_call_live event_attrib reduce self engine lg event_name =
     (if \<not> is_TrainsLogger lg then
        \<lparr>handler_after = self, calls = [],
         raised = Some (RuntimeError ''Handler GradsScalarHandler works only with TrainsLogger'')\<rparr>
      else
        (case event_attrib self engine event_name of
           (Inl e, self1) \<Rightarrow> \<lparr>handler_after = self1, calls = [], raised = Some e\<rparr>
         | (Inr global_step, self1) \<Rightarrow>
             (case scalar_loop_live reduce ''grads'' (tag_prefix (sh_tag self1))
                     global_step (sh_model self1) self1 of
                (cs, r, self2) \<Rightarrow> \<lparr>handler_after = self2, calls = cs, raised = r\<rparr>)))"

definition WeightsHistHandler_call_live ::
  "('t hist_handler \<Rightarrow> ('f, 't) engine \<Rightarrow> string \<Rightarrow>
      (error + ('f, 't) pyvalue) \<times> 't hist_handler) \<Rightarrow>
   't hist_handler \<Rightarrow> ('f, 't) engine \<Rightarrow> logger \<Rightarrow> string \<Rightarrow>
   ('t hist_handler, 'f, 't) outcome" where
  "WeightsHistHandler_call_live event_attrib self engine lg event_name =
     (if \<not> is_TrainsLogger lg then
        \<lparr>handler_after = self, calls = [],
         raised = Some (RuntimeError
           (''Handler '' @ [CHR 0x27] @ ''WeightsHistHandler'' @ [CHR 0x27]
              @ '' works only with TrainsLogger''))\<rparr>
      else
        (case event_attrib self engine event_name of
           (Inl e, self1) \<Rightarrow> \<lparr>handler_after = self1, calls = [], raised = Some e\<rparr>
         | (Inr global_step, self1) \<Rightarrow>
             \<lparr>handler_after = self1,
              calls = hist_loop ''weights'' (tag_prefix (hh_tag self1)) global_step
                        (hh_model self1),
              raised = None\<rparr>))"

definition GradsHistHandler_call_live ::
  "('t hist_handler \<Rightarrow> ('f, 't) engine \<Rightarrow> string \<Rightarrow>
      (error + ('f, 't) pyvalue) \<times> 't hist_handler) \<Rightarrow>
   't hist_handler \<Rightarrow> ('f, 't) engine \<Rightarrow> logger \<Rightarrow> string \<Rightarrow>
   ('t hist_handler, 'f, 't) outcome" where
  "GradsHistHandler_call_live event_attrib self engine lg event_name =
     (if \<not> is_TrainsLogger lg then
        \<lparr>handler_after = self, calls = [],
         raised = Some (RuntimeError
           (''Handler '' @ [CHR 0x27] @ ''GradsHistHandler'' @ [CHR 0x27]
              @ '' works only with TrainsLogger''))\<rparr>
      else
        (case event_attrib self engine event_name of
           (Inl e, self1) \<Rightarrow> \<lparr>handler_after = self1, calls = [], raised = Some e\<rparr>
         | (Inr global_step, self1) \<Rightarrow>
             \<lparr>handler_after = self1,
              calls = hist_loop ''grads'' (tag_prefix (hh_tag self1)) global_step
                        (hh_model self1),
              raised = None\<rparr>))"

section \<open>The logger object\<close>

text \<open>
  What the constructors read from the process: whether \<^verbatim>\<open>import trains\<close> succeeds,
  \<^verbatim>\<open>os.environ\<close>, and the class attribute \<^verbatim>\<open>TrainsLogger._bypass\<close>, absent
  until \<^verbatim>\<open>set_bypass_mode\<close> sets it.
\<close>

record process =
  trains_installed :: bool
  environ :: "string \<rightharpoonup> string"
  bypass_attr :: "bool option"

definition trains_missing :: error where
  "trains_missing = RuntimeError
     (''This contrib module requires trains to be installed. ''
        @ ''You may install trains using: '' @ [CHR 0x0A] @ '' pip install trains ''
        @ [CHR 0x0A])"

text \<open>\<^verbatim>\<open>setattr(cls, "_bypass", bypass)\<close>\<close>

definition set_bypass_mode :: "bool \<Rightarrow> process \<Rightarrow> process" where
  "set_bypass_mode bypass w = w\<lparr>bypass_attr := Some bypass\<rparr>"

text \<open>
  \<^verbatim>\<open>getattr(cls, "_bypass", bool(os.environ.get("CI")))\<close>: \<^verbatim>\<open>bool\<close> of
  \<^verbatim>\<open>None\<close> and of the empty string is \<^verbatim>\<open>False\<close>.
\<close>

definition bypass_mode :: "process \<Rightarrow> bool" where
  "bypass_mode w =
     (case bypass_attr w of
        Some b \<Rightarrow> b
      | None \<Rightarrow> (case environ w ''CI'' of None \<Rightarrow> False | Some s \<Rightarrow> s \<noteq> []))"

text \<open>
  The class \<^verbatim>\<open>_Stub\<close>: \<^verbatim>\<open>__getattr__\<close> returns the empty string for
  \<^verbatim>\<open>name\<close> and \<^verbatim>\<open>id\<close> and the stub itself otherwise; \<^verbatim>\<open>__call__\<close>
  returns the stub.
\<close>

datatype stub_value = StubSelf | StubStr string

definition Stub_getattr :: "string \<Rightarrow> stub_value" where
  "Stub_getattr attr = (if attr = ''name'' \<or> attr = ''id'' then StubStr [] else StubSelf)"

definition Stub_call :: stub_value where
  "Stub_call = StubSelf"

text \<open>\<^verbatim>\<open>kwargs.get(k)\<close> and \<^verbatim>\<open>kwargs.get(k, default)\<close>\<close>

definition kwargs_get ::
  "(string \<times> ('f, 't) pyvalue) list \<Rightarrow> string \<Rightarrow> ('f, 't) pyvalue \<Rightarrow> ('f, 't) pyvalue" where
  "kwargs_get kwargs k dflt = (case map_of kwargs k of None \<Rightarrow> dflt | Some v \<Rightarrow> v)"

definition own_kwargs :: "string list" where
  "own_kwargs = [''project_name'', ''task_name'', ''task_type'', ''report_freq'',
     ''histogram_update_freq_multiplier'', ''histogram_granularity'']"

text \<open>
  \<^verbatim>\<open>TrainsLogger.__init__\<close>: the calls made and either the exception raised or the
  task the new logger holds.
\<close>

definition TrainsLogger_init ::
  "process \<Rightarrow> (string \<times> ('f, 't) pyvalue) list \<Rightarrow> ('f, 't) call list \<times> (error + task)" where
  "TrainsLogger_init w kwargs =
     (if \<not> trains_installed w then ([], Inl trains_missing)
      else
        (let experiment_kwargs = filter (\<lambda>(k, v). k \<notin> set own_kwargs) kwargs;
             helper = CreateHistHelper
               (kwargs_get kwargs ''report_freq'' (PyInt 100))
               (kwargs_get kwargs ''histogram_update_freq_multiplier'' (PyInt 10))
               (kwargs_get kwargs ''histogram_granularity'' (PyInt 50))
         in if bypass_mode w then
              ([Warn ''TrainsSaver: running in bypass mode'', GetLogger StubTask, helper],
               Inr StubTask)
            else
              ([TaskInit (kwargs_get kwargs ''project_name'' PyNone)
                  (kwargs_get kwargs ''task_name'' PyNone)
                  (kwargs_get kwargs ''task_type'' (PyObject ''trains.Task.TaskTypes.training''))
                  experiment_kwargs,
                GetLogger VendorTask, helper],
               Inr VendorTask)))"

section \<open>The checkpoint saver\<close>

text \<open>\<^verbatim>\<open>os.path.join(a, b)\<close> and \<^verbatim>\<open>os.path.basename(p)\<close> of \<^verbatim>\<open>posixpath\<close>.\<close>

definition os_path_join :: "string \<Rightarrow> string \<Rightarrow> string" where
  "os_path_join a b =
     (if b \<noteq> [] \<and> hd b = CHR ''/'' then b
      else if a = [] \<or> last a = CHR ''/'' then a @ b
      else a @ ''/'' @ b)"

definition os_path_basename :: "string \<Rightarrow> string" where
  "os_path_basename p = rev (takeWhile (\<lambda>c. c \<noteq> CHR ''/'') (rev p))"

record trains_saver =
  ts_dirname :: string
  ts_atomic :: bool
  ts_logger :: logger
  ts_task :: task

text \<open>
  \<^verbatim>\<open>TrainsSaver.__init__\<close>. Outside this file and taken as parameters:
  \<^verbatim>\<open>DiskSaver.__init__\<close> (\<open>disk_saver_init\<close>, from the directory and the remaining
  keyword arguments to the saver's \<^verbatim>\<open>_atomic\<close> flag, or an exception),
  \<^verbatim>\<open>tempfile.mkdtemp\<close> applied to the timestamped prefix (\<open>mkdtemp\<close>), and the
  task that \<^verbatim>\<open>Task.current_task()\<close> returns.
\<close>

definition TrainsSaver_init ::
  "(string \<Rightarrow> (string \<times> ('f, 't) pyvalue) list \<Rightarrow> error + bool) \<Rightarrow> string \<Rightarrow> task \<Rightarrow>
   process \<Rightarrow> logger \<Rightarrow> string option \<Rightarrow> string option \<Rightarrow> (string \<times> ('f, 't) pyvalue) list \<Rightarrow>
   ('f, 't) call list \<times> (error + trains_saver)" where
  "TrainsSaver_init disk_saver_init mkdtemp current_task w lg output_uri dirname kwargs =
     (if \<not> is_TrainsLogger lg then
        ([], Inl (TypeError ''logger must be an instance of TrainsLogger''))
      else if \<not> trains_installed w then ([], Inl trains_missing)
      else
        (let (cs1, dirname') =
               (let tmp = ([Mkdtemp mkdtemp,
                      Warn (''TrainsSaver created a temporary checkpoints directory: ''
                              @ mkdtemp)], mkdtemp)
                in case dirname of
                     None \<Rightarrow> tmp
                   | Some d \<Rightarrow> (if d = [] then tmp else ([], d)))
         in case disk_saver_init dirname' kwargs of
              Inl e \<Rightarrow> (cs1 @ [DiskSaverInit dirname'], Inl e)
            | Inr atomic \<Rightarrow>
                (cs1 @ [DiskSaverInit dirname', CurrentTask]
                   @ (case output_uri of
                        None \<Rightarrow> []
                      | Some u \<Rightarrow> (if u = [] then [] else [SetOutputUri u])),
                 Inr \<lparr>ts_dirname = dirname', ts_atomic = atomic, ts_logger = lg,
                      ts_task = current_task\<rparr>)))"

text \<open>
  \<^verbatim>\<open>TrainsSaver.__call__\<close> on a file system given by the set of paths that exist.
  The inherited \<^verbatim>\<open>DiskSaver.__call__\<close> is the parameter \<open>disk_save\<close>: it returns
  the file system as the save leaves it and the exception it raised, if any.
\<close>

record ('f, 't) saved =
  fs_after :: "string set"
  saver_calls :: "('f, 't) call list"
  saver_raised :: "error option"

definition TrainsSaver_call ::
  "(trains_saver \<Rightarrow> (string \<times> ('f, 't) pyvalue) list \<Rightarrow> string \<Rightarrow> string set \<Rightarrow>
      string set \<times> error option) \<Rightarrow>
   process \<Rightarrow> trains_saver \<Rightarrow> (string \<times> ('f, 't) pyvalue) list \<Rightarrow> string \<Rightarrow> string set \<Rightarrow>
   ('f, 't) saved" where
  "TrainsSaver_call disk_save w self checkpoint filename fs =
     (case disk_save self checkpoint filename fs of
        (fs', Some e) \<Rightarrow>
          \<lparr>fs_after = fs', saver_calls = [DiskSaverCall checkpoint filename],
           saver_raised = Some e\<rparr>
      | (fs', None) \<Rightarrow>
          (if \<not> trains_installed w then
             \<lparr>fs_after = fs', saver_calls = [DiskSaverCall checkpoint filename],
              saver_raised = Some trains_missing\<rparr>
           else if ts_atomic self then
             (let path = os_path_join (ts_dirname self) filename
              in if path \<in> fs' then
                   \<lparr>fs_after = fs',
                    saver_calls = [DiskSaverCall checkpoint filename,
                      CreateOutputModel checkpoint path (os_path_basename filename)],
                    saver_raised = None\<rparr>
                 else
                   \<lparr>fs_after = fs', saver_calls = [DiskSaverCall checkpoint filename],
                    saver_raised = None\<rparr>)
           else
             \<lparr>fs_after = fs', saver_calls = [DiskSaverCall checkpoint filename],
              saver_raised = None\<rparr>))"

text \<open>
  The same method with the inherited save also returning the vendor calls made while it
  runs. The comment at the atomic branch says that \<^verbatim>\<open>trains\<close> detects the artifact
  of a save by itself, unless the save goes through a temporary file: an upload of a
  save that is not atomic is made inside the inherited call, by the vendor's hook, and
  appears here among the calls that \<open>disk_save\<close> returns.
\<close>

definition TrainsSaver_call_traced ::
  "(trains_saver \<Rightarrow> (string \<times> ('f, 't) pyvalue) list \<Rightarrow> string \<Rightarrow> string set \<Rightarrow>
      string set \<times> error option \<times> ('f, 't) call list) \<Rightarrow>
   process \<Rightarrow> trains_saver \<Rightarrow> (string \<times> ('f, 't) pyvalue) list \<Rightarrow> string \<Rightarrow> string set \<Rightarrow>
   ('f, 't) saved" where
  "TrainsSaver_call_traced disk_save w self checkpoint filename fs =
     (case disk_save self checkpoint filename fs of
        (fs', Some e, inside) \<Rightarrow>
          \<lparr>fs_after = fs', saver_calls = DiskSaverCall checkpoint filename # inside,
           saver_raised = Some e\<rparr>
      | (fs', None, inside) \<Rightarrow>
          (if \<not> trains_installed w then
             \<lparr>fs_after = fs', saver_calls = DiskSaverCall checkpoint filename # inside,
              saver_raised = Some trains_missing\<rparr>
           else if ts_atomic self then
             (let path = os_path_join (ts_dirname self) filename
              in if path \<in> fs' then
                   \<lparr>fs_after = fs',
                    saver_calls = DiskSaverCall checkpoint filename # inside @
                      [CreateOutputModel checkpoint path (os_path_basename filename)],
                    saver_raised = None\<rparr>
                 else
                   \<lparr>fs_after = fs', saver_calls = DiskSaverCall checkpoint filename # inside,
                    saver_raised = None\<rparr>)
           else
             \<lparr>fs_after = fs', saver_calls = DiskSaverCall checkpoint filename # inside,
              saver_raised = None\<rparr>))"

section \<open>Example inputs\<close>

text \<open>
  Concrete objects on which the theorems below are evaluated. Floats are stood for by
  integers and a tensor by the list of its entries.
\<close>

definition ex_engine :: "(int, int list) engine" where
  "ex_engine = \<lparr>get_event_attrib_value = (\<lambda>ev. Inr (PyInt 7))\<rparr>"

definition ex_sum :: "(int, int list) reduction" where
  "ex_sum = \<lparr>rname = ''sum'', rapply = (\<lambda>t. Inr (PyInt (sum_list t)))\<rparr>"

definition ex_model :: "(string \<times> int list parameter) list" where
  "ex_model = [(''fc.weight'', \<lparr>data = [1, 2], grad = Some [10, 20]\<rparr>),
               (''fc.bias'', \<lparr>data = [3], grad = None\<rparr>)]"

definition ex_scalar_handler :: "(int, int list) scalar_handler" where
  "ex_scalar_handler = \<lparr>sh_model = ex_model, sh_reduction = ex_sum, sh_tag = Some ''net''\<rparr>"

definition ex_hist_handler :: "int list hist_handler" where
  "ex_hist_handler = \<lparr>hh_model = ex_model, hh_tag = Some ''net''\<rparr>"

definition ex_metrics :: "(string \<times> (int, int list) pyvalue) list" where
  "ex_metrics = [(''nll'', PyFloat 3), (''note'', PyStr ''n/a''), (''accuracy'', PyInt 1)]"

definition ex_setup ::
  "(int, int list) output_handler \<Rightarrow> (int, int list) engine \<Rightarrow>
   error + (string \<times> (int, int list) pyvalue) list" where
  "ex_setup h e = Inr ex_metrics"

definition ex_output_handler :: "(int, int list) output_handler" where
  "ex_output_handler =
     \<lparr>oh_tag = ''validation'', oh_metric_names = Some [''nll'', ''note'', ''accuracy''],
      oh_output_transform = None,
      oh_global_step_transform = (\<lambda>e ev. get_event_attrib_value e ev)\<rparr>"

definition ex_output_handler_float_step :: "(int, int list) output_handler" where
  "ex_output_handler_float_step =
     \<lparr>oh_tag = ''validation'', oh_metric_names = Some [''nll'', ''note'', ''accuracy''],
      oh_output_transform = None,
      oh_global_step_transform = (\<lambda>e ev. Inr (PyFloat 1))\<rparr>"

definition ex_float :: "(int, int list) pyvalue \<Rightarrow> error + int" where
  "ex_float v =
     (case v of
        PyFloat x \<Rightarrow> Inr x
      | PyInt i \<Rightarrow> Inr i
      | PyBool b \<Rightarrow> Inr (if b then 1 else 0)
      | _ \<Rightarrow> Inl (TypeError ''float() argument must be a string or a number''))"

definition ex_optimizer_handler :: "(int, int list) optimizer_handler" where
  "ex_optimizer_handler =
     \<lparr>oph_optimizer = [[(''lr'', PyFloat 1)], [(''lr'', PyInt 2), (''momentum'', PyInt 0)]],
      oph_param_name = ''lr'', oph_tag = Some ''generator''\<rparr>"

definition ex_process_ci :: process where
  "ex_process_ci =
     \<lparr>trains_installed = True, environ = [''CI'' \<mapsto> ''true''], bypass_attr = None\<rparr>"

definition ex_process_missing :: process where
  "ex_process_missing =
     \<lparr>trains_installed = False, environ = Map.empty, bypass_attr = None\<rparr>"

definition ex_checkpoint :: "(string \<times> (int, int list) pyvalue) list" where
  "ex_checkpoint = [(''model'', PyObject ''collections.OrderedDict'')]"

definition ex_disk_save ::
  "trains_saver \<Rightarrow> (string \<times> (int, int list) pyvalue) list \<Rightarrow> string \<Rightarrow> string set \<Rightarrow>
   string set \<times> error option" where
  "ex_disk_save self ck fn fs = (insert (os_path_join (ts_dirname self) fn) fs, None)"

definition ex_disk_saver_init ::
  "string \<Rightarrow> (string \<times> (int, int list) pyvalue) list \<Rightarrow> error + bool" where
  "ex_disk_saver_init d kw = Inr True"

definition ex_saver :: trains_saver where
  "ex_saver = \<lparr>ts_dirname = ''/tmp/ckpt'', ts_atomic = True,
     ts_logger = TrainsLogger VendorTask, ts_task = VendorTask\<rparr>"







section \<open>Auxiliary facts\<close>

lemma scalar_loop_filter:
  "scalar_loop kind red pre gs (filter (\<lambda>(n, p). grad p \<noteq> None) m) = scalar_loop kind red pre gs m"
  by (induction m) (auto split: option.splits sum.splits prod.splits)

lemma hist_loop_filter:
  "hist_loop kind pre gs (filter (\<lambda>(n, p). grad p \<noteq> None) m) = hist_loop kind pre gs m"
  by (induction m) (auto split: option.splits prod.splits)

lemma output_loop_map:
  "output_loop tg gs ms = map (\<lambda>(k, v).
      if isinstance_float_int v then ReportScalar tg k gs v
      else Warn (''TrainsLogger output_handler can not log metrics value type '' @ type_repr v)) ms"
  by (induction ms) auto

lemma OutputHandler_call_ok:
  assumes "is_TrainsLogger lg" "metrics_of self engine = Inr ms"
    "oh_global_step_transform self engine ev = Inr gs" "isinstance_int gs"
  shows "OutputHandler_call metrics_of self engine lg ev =
     \<lparr>handler_after = self, calls = output_loop (oh_tag self) gs ms, raised = None\<rparr>"
  using assms by (simp add: OutputHandler_call_def)

text \<open>Decimal rendering is injective, so the comprehension never overwrites a key.\<close>

lemma digit_char_inj:
  assumes "a < 10" "b < 10" "digit_char a = digit_char b"
  shows "a = b"
proof -
  from assms(3) have "(48 + a) mod 256 = (48 + b) mod 256"
    by (simp add: digit_char_def char_of_eq_iff take_bit_eq_mod)
  moreover have "48 + a < 256" "48 + b < 256" using assms(1,2) by simp_all
  ultimately show ?thesis by simp
qed

lemma str_nat_nonempty: "str_nat n \<noteq> []"
  by (subst str_nat.simps) simp

lemma str_nat_inj: "str_nat n = str_nat m \<Longrightarrow> n = m"
proof (induction n arbitrary: m rule: str_nat.induct)
  case (1 n)
  show ?case
  proof (cases "n < 10")
    case True
    note n = this
    show ?thesis
    proof (cases "m < 10")
      case True
      with n "1.prems" have "digit_char n = digit_char m"
        by (simp add: str_nat.simps [of n] str_nat.simps [of m])
      with n True show ?thesis by (rule digit_char_inj)
    next
      case False
      with n "1.prems" have "[digit_char n] = str_nat (m div 10) @ [digit_char (m mod 10)]"
        by (simp add: str_nat.simps [of n] str_nat.simps [of m])
      then have "str_nat (m div 10) = []" by simp
      with str_nat_nonempty show ?thesis by blast
    qed
  next
    case False
    note n = this
    show ?thesis
    proof (cases "m < 10")
      case True
      with n "1.prems" have "str_nat (n div 10) @ [digit_char (n mod 10)] = [digit_char m]"
        by (simp add: str_nat.simps [of n] str_nat.simps [of m])
      then have "str_nat (n div 10) = []" by simp
      with str_nat_nonempty show ?thesis by blast
    next
      case False
      with n "1.prems"
      have eq: "str_nat (n div 10) @ [digit_char (n mod 10)]
              = str_nat (m div 10) @ [digit_char (m mod 10)]"
        by (simp add: str_nat.simps [of n] str_nat.simps [of m])
      then have "str_nat (n div 10) = str_nat (m div 10)"
        and d: "digit_char (n mod 10) = digit_char (m mod 10)" by simp_all
      with "1.IH" n have q: "n div 10 = m div 10" by blast
      have "n mod 10 = m mod 10" using d by (intro digit_char_inj) simp_all
      with q show ?thesis by (metis div_mult_mod_eq)
    qed
  qed
qed

lemma str_nat_0: "str_nat 0 = ''0''"
  by (simp add: str_nat.simps digit_char_def char_of_def bit_0)

lemma str_nat_1: "str_nat 1 = ''1''"
  by (simp add: str_nat.simps digit_char_def char_of_def bit_0)

lemma update_fresh: "k \<notin> fst ` set al \<Longrightarrow> AList.update k v al = al @ [(k, v)]"
  by (induction al) auto

lemma params_dict_enumerate:
  assumes "list_all2 (\<lambda>g v. \<exists>x. map_of g pn = Some x \<and> py_float x = Inr v) gs vs"
    and "\<forall>i\<ge>i0. str_nat i \<notin> fst ` set acc"
  shows "params_dict py_float pn (enumerate i0 gs) acc =
           Inr (acc @ map (\<lambda>(i, v). (str_nat i, v)) (enumerate i0 vs))"
  using assms
proof (induction gs vs arbitrary: i0 acc rule: list_all2_induct)
  case Nil
  show ?case by simp
next
  case (Cons g gs v vs)
  from Cons.hyps(1) obtain x where x: "map_of g pn = Some x" "py_float x = Inr v" by blast
  have fresh: "str_nat i0 \<notin> fst ` set acc" using Cons.prems by simp
  have "\<forall>i\<ge>Suc i0. str_nat i \<notin> fst ` set (acc @ [(str_nat i0, v)])"
    using Cons.prems by (auto dest: str_nat_inj)
  from Cons.IH [OF this] x fresh show ?case
    by (simp add: update_fresh)
qed

lemma distinct_str_nat: "distinct (map (\<lambda>(i, v). str_nat i) (enumerate i0 vs))"
proof -
  have "map (\<lambda>(i, v). str_nat i) (enumerate i0 vs) = map (str_nat \<circ> fst) (enumerate i0 vs)"
    by (simp add: case_prod_beta comp_def)
  also have "\<dots> = map str_nat (map fst (enumerate i0 vs))"
    by (simp only: map_map)
  finally have "map (\<lambda>(i, v). str_nat i) (enumerate i0 vs) = map str_nat [i0..<i0 + length vs]"
    by simp
  moreover have "distinct (map str_nat [i0..<i0 + length vs])"
    by (simp add: distinct_map inj_on_def) (blast dest: str_nat_inj)
  ultimately show ?thesis by simp
qed

lemma OptimizerParamsHandler_call_ok:
  assumes "is_TrainsLogger lg" "get_event_attrib_value engine ev = Inr gs"
    and "list_all2 (\<lambda>g v. \<exists>x. map_of g (oph_param_name self) = Some x \<and> py_float x = Inr v)
           (oph_optimizer self) vs"
  shows "OptimizerParamsHandler_call py_float self engine lg ev =
    \<lparr>handler_after = self,
     calls = map (\<lambda>(i, v). ReportScalar (tag_prefix (oph_tag self) @ oph_param_name self)
                (str_nat i) gs (PyFloat v)) (enumerate 0 vs),
     raised = None\<rparr>"
proof -
  from params_dict_enumerate [OF assms(3), of 0 "[]"]
  have "params_dict py_float (oph_param_name self) (enumerate 0 (oph_optimizer self)) []
     = Inr (map (\<lambda>(i, v). (str_nat i, v)) (enumerate 0 vs))" by simp
  with assms(1,2) show ?thesis
    by (simp add: OptimizerParamsHandler_call_def comp_def case_prod_beta)
qed

lemma bypass_mode_fold:
  "bypass_mode (fold set_bypass_mode bs w) = (if bs = [] then bypass_mode w else last bs)"
proof (induction bs arbitrary: w)
  case Nil
  show ?case by simp
next
  case (Cons b bs)
  show ?case
  proof (cases bs)
    case Nil
    then show ?thesis by (simp add: bypass_mode_def set_bypass_mode_def)
  next
    case (Cons c cs)
    with Cons.IH [of "set_bypass_mode b w"] show ?thesis by simp
  qed
qed

lemma bypass_mode_unset:
  "bypass_attr w = None \<Longrightarrow> bypass_mode w = (\<exists>s. environ w ''CI'' = Some s \<and> s \<noteq> [])"
  by (auto simp: bypass_mode_def split: option.splits)

lemma TrainsLogger_init_bypass:
  assumes "trains_installed w" "bypass_mode w"
  shows "TrainsLogger_init w kwargs =
     ([Warn ''TrainsSaver: running in bypass mode'', GetLogger StubTask,
       CreateHistHelper
         (kwargs_get kwargs ''report_freq'' (PyInt 100))
         (kwargs_get kwargs ''histogram_update_freq_multiplier'' (PyInt 10))
         (kwargs_get kwargs ''histogram_granularity'' (PyInt 50))], Inr StubTask)"
  using assms by (simp add: TrainsLogger_init_def Let_def)

lemma TrainsLogger_init_missing:
  "\<not> trains_installed w \<Longrightarrow> TrainsLogger_init w kwargs = ([], Inl trains_missing)"
  by (simp add: TrainsLogger_init_def)

lemma TrainsSaver_init_missing:
  "\<not> trains_installed w \<Longrightarrow>
   TrainsSaver_init dsi mk ct w lg uri dn kwargs =
     ([], Inl (if is_TrainsLogger lg then trains_missing
               else TypeError ''logger must be an instance of TrainsLogger''))"
  by (simp add: TrainsSaver_init_def)

lemma TrainsSaver_call_missing:
  "\<not> trains_installed w \<Longrightarrow>
   saver_calls (TrainsSaver_call ds w self ck fn fs) = [DiskSaverCall ck fn]
   \<and> saver_raised (TrainsSaver_call ds w self ck fn fs) =
       Some (case snd (ds self ck fn fs) of None \<Rightarrow> trains_missing | Some e \<Rightarrow> e)"
  by (simp add: TrainsSaver_call_def split: prod.splits option.splits)

lemma scalar_loop_all_none:
  "\<forall>(n, p) \<in> set m. grad p = None \<Longrightarrow> scalar_loop kind red pre gs m = ([], None)"
  by (induction m) auto

lemma hist_loop_all_none:
  "\<forall>(n, p) \<in> set m. grad p = None \<Longrightarrow> hist_loop kind pre gs m = []"
  by (induction m) auto



lemma scalar_loop_live_pure:
  "scalar_loop_live (\<lambda>h t. (rapply (sh_reduction h) t, h)) kind pre gs m self =
     (fst (scalar_loop kind (sh_reduction self) pre gs m),
      snd (scalar_loop kind (sh_reduction self) pre gs m), self)"
  by (induction m) (auto split: option.splits sum.splits prod.splits)

lemma OutputHandler_call_live_pure:
  "OutputHandler_call_live (\<lambda>h e. (metrics_of h e, h))
     (\<lambda>h e ev. (oh_global_step_transform h e ev, h)) self engine lg ev
   = OutputHandler_call metrics_of self engine lg ev"
  by (simp add: OutputHandler_call_live_def OutputHandler_call_def split: sum.splits)

lemma OptimizerParamsHandler_call_live_pure:
  "OptimizerParamsHandler_call_live (\<lambda>h e ev. (get_event_attrib_value e ev, h)) py_float
     self engine lg ev
   = OptimizerParamsHandler_call py_float self engine lg ev"
  by (simp add: OptimizerParamsHandler_call_live_def OptimizerParamsHandler_call_def
        split: sum.splits)

lemma WeightsScalarHandler_call_live_pure:
  "WeightsScalarHandler_call_live (\<lambda>h e ev. (get_event_attrib_value e ev, h))
     (\<lambda>h t. (rapply (sh_reduction h) t, h)) self engine lg ev
   = WeightsScalarHandler_call self engine lg ev"
  by (simp add: WeightsScalarHandler_call_live_def WeightsScalarHandler_call_def
        scalar_loop_live_pure case_prod_beta split: sum.splits)

lemma GradsScalarHandler_call_live_pure:
  "GradsScalarHandler_call_live (\<lambda>h e ev. (get_event_attrib_value e ev, h))
     (\<lambda>h t. (rapply (sh_reduction h) t, h)) self engine lg ev
   = GradsScalarHandler_call self engine lg ev"
  by (simp add: GradsScalarHandler_call_live_def GradsScalarHandler_call_def
        scalar_loop_live_pure case_prod_beta split: sum.splits)

lemma WeightsHistHandler_call_live_pure:
  "WeightsHistHandler_call_live (\<lambda>h e ev. (get_event_attrib_value e ev, h)) self engine lg ev
   = WeightsHistHandler_call self engine lg ev"
  by (simp add: WeightsHistHandler_call_live_def WeightsHistHandler_call_def split: sum.splits)

lemma GradsHistHandler_call_live_pure:
  "GradsHistHandler_call_live (\<lambda>h e ev. (get_event_attrib_value e ev, h)) self engine lg ev
   = GradsHistHandler_call self engine lg ev"
  by (simp add: GradsHistHandler_call_live_def GradsHistHandler_call_def split: sum.splits)

lemma TrainsSaver_call_traced_plain:
  "TrainsSaver_call_traced (\<lambda>s c f x. (fst (ds s c f x), snd (ds s c f x), [])) w self ck fn fs
     = TrainsSaver_call ds w self ck fn fs"
  by (simp add: TrainsSaver_call_traced_def TrainsSaver_call_def Let_def
        split: prod.splits option.splits)

section \<open>The claims\<close>

text \<open>
  Claim C1. \<^verbatim>\<open>GradsScalarHandler.__call__\<close> is meant to report, for each parameter
  with a gradient, the reduction of that gradient. On a model whose parameter
  \<^verbatim>\<open>fc.weight\<close> has data \<open>[1, 2]\<close> and gradient \<open>[10, 20]\<close>, with the sum as
  reduction, the title and the series are as described
  (\<^verbatim>\<open>net/grads_sum/fc\<close>, \<^verbatim>\<open>weight\<close>), but the reported value is \<open>3\<close>, the
  reduction of \<^verbatim>\<open>p.data\<close>, while the reduction of the gradient is \<open>30\<close>.
\<close>

theorem GradsScalarHandler_reduces_data:
  "calls (GradsScalarHandler_call ex_scalar_handler ex_engine (TrainsLogger VendorTask)
            ''iteration_completed'')
     = [ReportScalar ''net/grads_sum/fc'' ''weight'' (PyInt 7) (PyInt 3)]
   \<and> rapply ex_sum [10, 20] = Inr (PyInt 30)"
  by (simp add: GradsScalarHandler_call_def ex_scalar_handler_def ex_engine_def ex_sum_def
        ex_model_def tag_prefix_def partition_str_def)

text \<open>
  Claim C2. \<^verbatim>\<open>WeightsHistHandler.__call__\<close> is meant to pass the parameter's value
  tensor as \<^verbatim>\<open>hist_data\<close>. On the same model the histogram data for
  \<^verbatim>\<open>fc.weight\<close> is the numpy view of the gradient \<open>[10, 20]\<close>, not of the data
  \<open>[1, 2]\<close>; title, series and step are as described.
\<close>

theorem WeightsHistHandler_passes_grad:
  "calls (WeightsHistHandler_call ex_hist_handler ex_engine (TrainsLogger VendorTask)
            ''iteration_completed'')
     = [AddHistogram ''net/weights_fc'' ''weight'' (PyInt 7) (PyNdarray [10, 20])]
   \<and> map_of ex_model ''fc.weight'' = Some \<lparr>data = [1, 2], grad = Some [10, 20]\<rparr>"
  by (simp add: WeightsHistHandler_call_def ex_hist_handler_def ex_engine_def
        ex_model_def tag_prefix_def partition_str_def)

text \<open>
  Claim C3, as stated, fails: a logger that is not a \<^verbatim>\<open>TrainsLogger\<close> makes
  \<^verbatim>\<open>OutputHandler.__call__\<close> raise \<^verbatim>\<open>RuntimeError\<close>, and a float global step
  makes it raise \<^verbatim>\<open>TypeError\<close>.
\<close>

theorem type_mismatch_raises_counterexample:
  "raised (OutputHandler_call ex_setup ex_output_handler ex_engine
             (OtherLogger ''TensorboardLogger'') ''epoch_completed'')
     = Some (RuntimeError ''Handler OutputHandler works only with TrainsLogger'')
   \<and> raised (OutputHandler_call ex_setup ex_output_handler_float_step ex_engine
             (TrainsLogger VendorTask) ''epoch_completed'')
     = Some (TypeError (''global_step must be int, got <class '' @ [CHR 0x27] @ ''float''
               @ [CHR 0x27] @ ''>. Please check the output of global_step_transform.''))"
  by (simp add: OutputHandler_call_def ex_setup_def ex_output_handler_float_step_def
        type_repr_def)

text \<open>
  Claim C3, amended. A logger of the wrong type makes each of the six handlers raise
  \<^verbatim>\<open>RuntimeError\<close> before any vendor call, and makes \<^verbatim>\<open>TrainsSaver.__init__\<close>
  raise \<^verbatim>\<open>TypeError\<close>; a global step that is not an integer makes
  \<^verbatim>\<open>OutputHandler.__call__\<close> raise \<^verbatim>\<open>TypeError\<close> before any vendor call; only a
  metric value that is neither int nor float is answered by a warning, and then no
  exception is raised.
\<close>

theorem type_mismatch_outcomes:
  "(\<not> is_TrainsLogger lg \<longrightarrow>
      OutputHandler_call metrics_of oh engine lg ev =
        \<lparr>handler_after = oh, calls = [],
         raised = Some (RuntimeError ''Handler OutputHandler works only with TrainsLogger'')\<rparr>
      \<and> OptimizerParamsHandler_call py_float oph engine lg ev =
        \<lparr>handler_after = oph, calls = [],
         raised = Some (RuntimeError ''Handler OptimizerParamsHandler works only with TrainsLogger'')\<rparr>
      \<and> WeightsScalarHandler_call sh engine lg ev =
        \<lparr>handler_after = sh, calls = [],
         raised = Some (RuntimeError ''Handler WeightsScalarHandler works only with TrainsLogger'')\<rparr>
      \<and> GradsScalarHandler_call sh engine lg ev =
        \<lparr>handler_after = sh, calls = [],
         raised = Some (RuntimeError ''Handler GradsScalarHandler works only with TrainsLogger'')\<rparr>
      \<and> (\<exists>m. raised (WeightsHistHandler_call hh engine lg ev) = Some (RuntimeError m))
      \<and> calls (WeightsHistHandler_call hh engine lg ev) = []
      \<and> (\<exists>m. raised (GradsHistHandler_call hh engine lg ev) = Some (RuntimeError m))
      \<and> calls (GradsHistHandler_call hh engine lg ev) = []
      \<and> TrainsSaver_init dsi mk ct w lg uri dn kwargs =
          ([], Inl (TypeError ''logger must be an instance of TrainsLogger'')))
   \<and> (metrics_of oh engine = Inr ms \<and> oh_global_step_transform oh engine ev = Inr gs
        \<and> \<not> isinstance_int gs \<longrightarrow>
      OutputHandler_call metrics_of oh engine (TrainsLogger t) ev =
        \<lparr>handler_after = oh, calls = [],
         raised = Some (TypeError (''global_step must be int, got '' @ type_repr gs
                    @ ''. Please check the output of global_step_transform.''))\<rparr>)
   \<and> (metrics_of oh' engine = Inr ms \<and> oh_global_step_transform oh' engine ev = Inr gs'
        \<and> isinstance_int gs' \<longrightarrow>
      raised (OutputHandler_call metrics_of oh' engine (TrainsLogger t) ev) = None
      \<and> (\<forall>(k, v) \<in> set ms. \<not> isinstance_float_int v \<longrightarrow>
            Warn (''TrainsLogger output_handler can not log metrics value type '' @ type_repr v)
              \<in> set (calls (OutputHandler_call metrics_of oh' engine (TrainsLogger t) ev))))"
proof (intro conjI impI)
  assume "metrics_of oh' engine = Inr ms \<and> oh_global_step_transform oh' engine ev = Inr gs'
        \<and> isinstance_int gs'"
  then have eq: "OutputHandler_call metrics_of oh' engine (TrainsLogger t) ev =
     \<lparr>handler_after = oh', calls = output_loop (oh_tag oh') gs' ms, raised = None\<rparr>"
    by (simp add: OutputHandler_call_ok)
  then show "raised (OutputHandler_call metrics_of oh' engine (TrainsLogger t) ev) = None" by simp
  show "\<forall>(k, v) \<in> set ms. \<not> isinstance_float_int v \<longrightarrow>
            Warn (''TrainsLogger output_handler can not log metrics value type '' @ type_repr v)
              \<in> set (calls (OutputHandler_call metrics_of oh' engine (TrainsLogger t) ev))"
    unfolding eq by (force simp: output_loop_map)
qed (simp_all add: OutputHandler_call_def OptimizerParamsHandler_call_def
       WeightsScalarHandler_call_def GradsScalarHandler_call_def WeightsHistHandler_call_def
       GradsHistHandler_call_def TrainsSaver_init_def)

text \<open>The amended claim C3 on the example handlers.\<close>

theorem type_mismatch_outcomes_witness:
  "raised (WeightsScalarHandler_call ex_scalar_handler ex_engine
             (OtherLogger ''TensorboardLogger'') ''epoch_completed'')
     = Some (RuntimeError ''Handler WeightsScalarHandler works only with TrainsLogger'')
   \<and> calls (OutputHandler_call ex_setup ex_output_handler_float_step ex_engine
             (TrainsLogger VendorTask) ''epoch_completed'') = []
   \<and> raised (OutputHandler_call ex_setup ex_output_handler ex_engine
             (TrainsLogger VendorTask) ''epoch_completed'') = None
   \<and> Warn (''TrainsLogger output_handler can not log metrics value type <class ''
             @ [CHR 0x27] @ ''str'' @ [CHR 0x27] @ ''>'')
       \<in> set (calls (OutputHandler_call ex_setup ex_output_handler ex_engine
             (TrainsLogger VendorTask) ''epoch_completed''))"
proof -
  note T = type_mismatch_outcomes [where lg = "OtherLogger ''TensorboardLogger''"
      and metrics_of = ex_setup and oh = ex_output_handler_float_step and engine = ex_engine
      and ev = "''epoch_completed''" and py_float = ex_float and oph = ex_optimizer_handler
      and sh = ex_scalar_handler and hh = ex_hist_handler and dsi = ex_disk_saver_init
      and mk = "''/tmp/ignite''" and ct = VendorTask and w = ex_process_ci and uri = None
      and dn = None and kwargs = "[]" and ms = ex_metrics
      and gs = "PyFloat 1" and t = VendorTask and oh' = ex_output_handler and gs' = "PyInt 7"]
  have a: "\<not> is_TrainsLogger (OtherLogger ''TensorboardLogger'')" by simp
  have b: "ex_setup ex_output_handler_float_step ex_engine = Inr ex_metrics
     \<and> oh_global_step_transform ex_output_handler_float_step ex_engine ''epoch_completed''
          = Inr (PyFloat 1)
     \<and> \<not> isinstance_int (PyFloat 1 :: (int, int list) pyvalue)"
    by (simp add: ex_setup_def ex_output_handler_float_step_def)
  have c: "ex_setup ex_output_handler ex_engine = Inr ex_metrics
     \<and> oh_global_step_transform ex_output_handler ex_engine ''epoch_completed''
          = Inr (PyInt 7)
     \<and> isinstance_int (PyInt 7 :: (int, int list) pyvalue)"
    by (simp add: ex_setup_def ex_output_handler_def ex_engine_def)
  from T a b c show ?thesis
    by (simp add: ex_metrics_def type_repr_def)
qed




text \<open>
  Claim C5. When \<^verbatim>\<open>OutputHandler.__call__\<close> is given a \<^verbatim>\<open>TrainsLogger\<close> and the
  global step is an integer, it raises nothing and makes one call per entry of the
  extracted metrics, in order: \<^verbatim>\<open>report_scalar\<close> with the handler's tag as title, the
  key as series, the global step as iteration and the value, if the value is an int or a
  float, and a warning otherwise.
\<close>

theorem OutputHandler_reports_metrics:
  assumes "is_TrainsLogger lg" "metrics_of self engine = Inr ms"
    "oh_global_step_transform self engine ev = Inr gs" "isinstance_int gs"
  shows "raised (OutputHandler_call metrics_of self engine lg ev) = None
    \<and> calls (OutputHandler_call metrics_of self engine lg ev) = map (\<lambda>(k, v).
      if isinstance_float_int v then ReportScalar (oh_tag self) k gs v
      else Warn (''TrainsLogger output_handler can not log metrics value type '' @ type_repr v)) ms"
  using assms by (simp add: OutputHandler_call_ok output_loop_map)

text \<open>Claim C5 on metrics with a float, a string and an int.\<close>

theorem OutputHandler_reports_metrics_witness:
  "calls (OutputHandler_call ex_setup ex_output_handler ex_engine
             (TrainsLogger VendorTask) ''epoch_completed'') =
     [ReportScalar ''validation'' ''nll'' (PyInt 7) (PyFloat 3),
      Warn (''TrainsLogger output_handler can not log metrics value type <class ''
             @ [CHR 0x27] @ ''str'' @ [CHR 0x27] @ ''>''),
      ReportScalar ''validation'' ''accuracy'' (PyInt 7) (PyInt 1)]"
proof -
  have h1: "is_TrainsLogger (TrainsLogger VendorTask)" by simp
  have h2: "ex_setup ex_output_handler ex_engine = Inr ex_metrics" by (simp add: ex_setup_def)
  have h3: "oh_global_step_transform ex_output_handler ex_engine ''epoch_completed''
              = Inr (PyInt 7)"
    by (simp add: ex_output_handler_def ex_engine_def)
  have h4: "isinstance_int (PyInt 7 :: (int, int list) pyvalue)" by simp
  from OutputHandler_reports_metrics [where metrics_of = ex_setup and self = ex_output_handler
      and engine = ex_engine, OF h1 h2 h3 h4] show ?thesis
    by (simp add: ex_metrics_def ex_output_handler_def type_repr_def)
qed

text \<open>
  Claim C6. When \<^verbatim>\<open>OptimizerParamsHandler.__call__\<close> is given a
  \<^verbatim>\<open>TrainsLogger\<close>, the event has a global step and
  \<^verbatim>\<open>float(param_group[param_name])\<close> is defined for every parameter group (with
  value \<open>vs ! i\<close> for group \<open>i\<close>), it raises nothing and makes exactly one
  \<^verbatim>\<open>report_scalar\<close> call per group, in order: series \<^verbatim>\<open>str(i)\<close>, that float as
  value, the global step as iteration, and title \<^verbatim>\<open>{tag}/{param_name}\<close> when the
  tag is a non-empty string and \<^verbatim>\<open>{param_name}\<close> otherwise. The series are pairwise
  distinct.
\<close>

theorem OptimizerParamsHandler_reports_groups:
  assumes "is_TrainsLogger lg" "get_event_attrib_value engine ev = Inr gs"
    and "list_all2 (\<lambda>g v. \<exists>x. map_of g (oph_param_name self) = Some x \<and> py_float x = Inr v)
           (oph_optimizer self) vs"
  shows "raised (OptimizerParamsHandler_call py_float self engine lg ev) = None
    \<and> calls (OptimizerParamsHandler_call py_float self engine lg ev) =
        map (\<lambda>(i, v). ReportScalar
               (case oph_tag self of
                  None \<Rightarrow> oph_param_name self
                | Some tg \<Rightarrow> (if tg = [] then oph_param_name self
                              else tg @ ''/'' @ oph_param_name self))
               (str_nat i) gs (PyFloat v)) (enumerate 0 vs)
    \<and> length vs = length (oph_optimizer self)
    \<and> distinct (map (\<lambda>(i, v). str_nat i) (enumerate 0 vs))"
proof -
  have t: "tag_prefix (oph_tag self) @ oph_param_name self =
      (case oph_tag self of
                  None \<Rightarrow> oph_param_name self
                | Some tg \<Rightarrow> (if tg = [] then oph_param_name self
                              else tg @ ''/'' @ oph_param_name self))"
    by (simp add: tag_prefix_def split: option.splits)
  from assms(3) have "length vs = length (oph_optimizer self)"
    by (simp add: list_all2_lengthD)
  with OptimizerParamsHandler_call_ok [OF assms] t distinct_str_nat [of 0 vs]
  show ?thesis by simp
qed

text \<open>Claim C6 on an optimizer with two parameter groups.\<close>

theorem OptimizerParamsHandler_reports_groups_witness:
  "calls (OptimizerParamsHandler_call ex_float ex_optimizer_handler ex_engine
            (TrainsLogger VendorTask) ''iteration_started'') =
     [ReportScalar ''generator/lr'' ''0'' (PyInt 7) (PyFloat 1),
      ReportScalar ''generator/lr'' ''1'' (PyInt 7) (PyFloat 2)]"
proof -
  have h1: "is_TrainsLogger (TrainsLogger VendorTask)" by simp
  have h2: "get_event_attrib_value ex_engine ''iteration_started'' = Inr (PyInt 7)"
    by (simp add: ex_engine_def)
  have h3: "list_all2 (\<lambda>g v. \<exists>x. map_of g (oph_param_name ex_optimizer_handler) = Some x
                \<and> ex_float x = Inr v) (oph_optimizer ex_optimizer_handler) [1, 2]"
    by (simp add: ex_optimizer_handler_def ex_float_def)
  from OptimizerParamsHandler_reports_groups [OF h1 h2 h3] show ?thesis
    by (simp add: ex_optimizer_handler_def enumerate_eq_zip upt_rec [of 0] upt_rec [of 1]
          str_nat_0 str_nat_1 [unfolded One_nat_def])
qed

text \<open>
  Claim C7. When \<^verbatim>\<open>trains\<close> cannot be imported, \<^verbatim>\<open>TrainsLogger.__init__\<close>
  raises the missing-package \<^verbatim>\<open>RuntimeError\<close> with no call made before;
  \<^verbatim>\<open>TrainsSaver.__init__\<close> raises with no call made before, and what it raises is
  that \<^verbatim>\<open>RuntimeError\<close> when the logger is a \<^verbatim>\<open>TrainsLogger\<close>;
  \<^verbatim>\<open>TrainsSaver.__call__\<close> raises after the disk save and without an upload, and what
  it raises is that \<^verbatim>\<open>RuntimeError\<close> when the disk save itself did not raise.
\<close>

theorem missing_trains_raises:
  assumes "\<not> trains_installed w"
  shows "TrainsLogger_init w kwargs = ([], Inl trains_missing)
    \<and> TrainsSaver_init dsi mk ct w (TrainsLogger t) uri dn kwargs' = ([], Inl trains_missing)
    \<and> (\<exists>e. TrainsSaver_init dsi mk ct w lg uri dn kwargs' = ([], Inl e))
    \<and> saver_raised (TrainsSaver_call ds w self ck fn fs) \<noteq> None
    \<and> (snd (ds self ck fn fs) = None \<longrightarrow>
          saver_raised (TrainsSaver_call ds w self ck fn fs) = Some trains_missing)
    \<and> saver_calls (TrainsSaver_call ds w self ck fn fs) = [DiskSaverCall ck fn]"
  using assms
  by (simp add: TrainsLogger_init_missing TrainsSaver_init_missing TrainsSaver_call_missing)

text \<open>Claim C7 on a process without the vendor package.\<close>

theorem missing_trains_raises_witness:
  "TrainsLogger_init ex_process_missing [(''project_name'', PyStr ''mnist'')]
     = ([] :: (int, int list) call list, Inl trains_missing)
   \<and> TrainsSaver_init ex_disk_saver_init ''/tmp/ignite'' VendorTask ex_process_missing
        (TrainsLogger VendorTask) None None [] = ([], Inl trains_missing)
   \<and> saver_raised (TrainsSaver_call ex_disk_save ex_process_missing ex_saver ex_checkpoint
        ''model_1.pt'' {}) = Some trains_missing
   \<and> saver_calls (TrainsSaver_call ex_disk_save ex_process_missing ex_saver ex_checkpoint
        ''model_1.pt'' {}) = [DiskSaverCall ex_checkpoint ''model_1.pt'']"
proof -
  have h: "\<not> trains_installed ex_process_missing" by (simp add: ex_process_missing_def)
  from missing_trains_raises [OF h, where kwargs = "[(''project_name'', PyStr ''mnist'') :: string \<times> (int, int list) pyvalue]"
      and dsi = ex_disk_saver_init and mk = "''/tmp/ignite''" and ct = VendorTask
      and t = VendorTask and uri = None and dn = None and kwargs' = "[]"
      and lg = "TrainsLogger VendorTask" and ds = ex_disk_save and self = ex_saver
      and ck = ex_checkpoint and fn = "''model_1.pt''" and fs = "{}"]
  show ?thesis by (simp add: ex_disk_save_def)
qed



text \<open>
  Claim C9. After any sequence of \<^verbatim>\<open>set_bypass_mode\<close> calls
  \<^verbatim>\<open>bypass_mode()\<close> returns the last value passed, and the value it had before if
  there was no call; with the class attribute unset it returns whether \<^verbatim>\<open>CI\<close> is
  set to a non-empty string. When it returns \<^verbatim>\<open>True\<close> (and \<^verbatim>\<open>trains\<close> can be
  imported) the constructor warns, installs the stub task and never calls
  \<^verbatim>\<open>Task.init\<close>. The stub's attribute lookup gives the empty string for
  \<^verbatim>\<open>name\<close> and \<^verbatim>\<open>id\<close> and the stub itself for every other attribute.
\<close>

theorem bypass_mode_and_stub:
  "bypass_mode (fold set_bypass_mode bs w) = (if bs = [] then bypass_mode w else last bs)
   \<and> (bypass_attr w = None \<longrightarrow>
        bypass_mode w = (\<exists>s. environ w ''CI'' = Some s \<and> s \<noteq> []))
   \<and> (trains_installed w \<and> bypass_mode w \<longrightarrow>
        TrainsLogger_init w kwargs =
          ([Warn ''TrainsSaver: running in bypass mode'', GetLogger StubTask,
            CreateHistHelper
              (kwargs_get kwargs ''report_freq'' (PyInt 100))
              (kwargs_get kwargs ''histogram_update_freq_multiplier'' (PyInt 10))
              (kwargs_get kwargs ''histogram_granularity'' (PyInt 50))], Inr StubTask))
   \<and> Stub_getattr ''name'' = StubStr [] \<and> Stub_getattr ''id'' = StubStr []
   \<and> (attr \<noteq> ''name'' \<and> attr \<noteq> ''id'' \<longrightarrow> Stub_getattr attr = StubSelf)
   \<and> Stub_call = StubSelf"
  by (simp add: bypass_mode_fold bypass_mode_unset TrainsLogger_init_bypass
        Stub_getattr_def Stub_call_def)

text \<open>Claim C9 on a process with \<^verbatim>\<open>CI=true\<close>.\<close>

theorem bypass_mode_and_stub_witness:
  "bypass_mode (fold set_bypass_mode [False, True] ex_process_ci)
   \<and> \<not> bypass_mode (fold set_bypass_mode [True, False] ex_process_ci)
   \<and> bypass_mode ex_process_ci
   \<and> TrainsLogger_init ex_process_ci [(''report_freq'', PyInt 5)] =
        ([Warn ''TrainsSaver: running in bypass mode'', GetLogger StubTask,
          CreateHistHelper (PyInt 5) (PyInt 10) (PyInt 50) :: (int, int list) call],
         Inr StubTask)
   \<and> Stub_getattr ''get_logger'' = StubSelf"
proof -
  have h1: "bypass_attr ex_process_ci = None" by (simp add: ex_process_ci_def)
  have h2: "\<exists>s. environ ex_process_ci ''CI'' = Some s \<and> s \<noteq> []"
    by (simp add: ex_process_ci_def)
  have h3: "trains_installed ex_process_ci" by (simp add: ex_process_ci_def)
  have h4: "''get_logger'' \<noteq> ''name'' \<and> ''get_logger'' \<noteq> ''id''" by simp
  note T1 = bypass_mode_and_stub [where bs = "[False, True]" and w = ex_process_ci
      and kwargs = "[(''report_freq'', PyInt 5) :: string \<times> (int, int list) pyvalue]"
      and attr = "''get_logger''"]
  note T2 = bypass_mode_and_stub [where bs = "[True, False]" and w = ex_process_ci
      and kwargs = "[(''report_freq'', PyInt 5) :: string \<times> (int, int list) pyvalue]"
      and attr = "''get_logger''"]
  from T1 T2 h1 h2 h3 h4 show ?thesis
    by (simp add: kwargs_get_def)
qed

text \<open>
  Claim C10. For each of the four weights and gradients handlers a parameter whose
  \<^verbatim>\<open>grad\<close> is \<^verbatim>\<open>None\<close> contributes nothing: the calls made (and the exception
  raised, if any) are those for the model with these parameters removed, and a model
  all of whose parameters lack a gradient yields no call at all.
\<close>

theorem handlers_skip_params_without_grad:
  "calls (WeightsScalarHandler_call (sh\<lparr>sh_model := m\<rparr>) engine lg ev)
     = calls (WeightsScalarHandler_call
         (sh\<lparr>sh_model := filter (\<lambda>(n, p). grad p \<noteq> None) m\<rparr>) engine lg ev)
   \<and> raised (WeightsScalarHandler_call (sh\<lparr>sh_model := m\<rparr>) engine lg ev)
     = raised (WeightsScalarHandler_call
         (sh\<lparr>sh_model := filter (\<lambda>(n, p). grad p \<noteq> None) m\<rparr>) engine lg ev)
   \<and> calls (GradsScalarHandler_call (sh\<lparr>sh_model := m\<rparr>) engine lg ev)
     = calls (GradsScalarHandler_call
         (sh\<lparr>sh_model := filter (\<lambda>(n, p). grad p \<noteq> None) m\<rparr>) engine lg ev)
   \<and> raised (GradsScalarHandler_call (sh\<lparr>sh_model := m\<rparr>) engine lg ev)
     = raised (GradsScalarHandler_call
         (sh\<lparr>sh_model := filter (\<lambda>(n, p). grad p \<noteq> None) m\<rparr>) engine lg ev)
   \<and> WeightsHistHandler_call (hh\<lparr>hh_model := m\<rparr>) engine lg ev
     = (WeightsHistHandler_call
         (hh\<lparr>hh_model := filter (\<lambda>(n, p). grad p \<noteq> None) m\<rparr>) engine lg ev)
          \<lparr>handler_after := hh\<lparr>hh_model := m\<rparr>\<rparr>
   \<and> GradsHistHandler_call (hh\<lparr>hh_model := m\<rparr>) engine lg ev
     = (GradsHistHandler_call
         (hh\<lparr>hh_model := filter (\<lambda>(n, p). grad p \<noteq> None) m\<rparr>) engine lg ev)
          \<lparr>handler_after := hh\<lparr>hh_model := m\<rparr>\<rparr>
   \<and> ((\<forall>(n, p) \<in> set m. grad p = None) \<longrightarrow>
        calls (WeightsScalarHandler_call (sh\<lparr>sh_model := m\<rparr>) engine lg ev) = []
        \<and> calls (GradsScalarHandler_call (sh\<lparr>sh_model := m\<rparr>) engine lg ev) = []
        \<and> calls (WeightsHistHandler_call (hh\<lparr>hh_model := m\<rparr>) engine lg ev) = []
        \<and> calls (GradsHistHandler_call (hh\<lparr>hh_model := m\<rparr>) engine lg ev) = [])"
  by (simp add: WeightsScalarHandler_call_def WeightsHistHandler_call_def
        GradsScalarHandler_call_def GradsHistHandler_call_def
        scalar_loop_filter hist_loop_filter scalar_loop_all_none hist_loop_all_none
        case_prod_beta del: not_None_eq
        split: sum.splits)

text \<open>Claim C10 on a model whose only parameter has no gradient.\<close>

theorem handlers_skip_params_without_grad_witness:
  "calls (WeightsScalarHandler_call
            (ex_scalar_handler\<lparr>sh_model := [(''fc.bias'', \<lparr>data = [3], grad = None\<rparr>)]\<rparr>)
            ex_engine (TrainsLogger VendorTask) ''iteration_completed'') = []
   \<and> calls (WeightsHistHandler_call
            (ex_hist_handler\<lparr>hh_model := [(''fc.bias'', \<lparr>data = [3], grad = None\<rparr>)]\<rparr>)
            ex_engine (TrainsLogger VendorTask) ''iteration_completed'') = []"
proof -
  have h: "\<forall>(n, p) \<in> set [(''fc.bias'', \<lparr>data = [3::int], grad = None\<rparr>)]. grad p = None"
    by simp
  from handlers_skip_params_without_grad [where sh = ex_scalar_handler
      and m = "[(''fc.bias'', \<lparr>data = [3], grad = None\<rparr>)]" and engine = ex_engine
      and lg = "TrainsLogger VendorTask" and ev = "''iteration_completed''"
      and hh = ex_hist_handler] h
  show ?thesis by blast
qed

end
